theory Spec2Isabelle
  imports Main
begin

section \<open>The keeper registry client (internal/pkg/keeper/client.go)\<close>

text \<open>
  The client talks to the registry over HTTP. The embedding keeps the Go code's shape:
  a Go \<open>error\<close> is a \<open>string option\<close> (\<open>None\<close> is \<open>nil\<close>, \<open>Some m\<close> an error
  whose text is \<open>m\<close>), a Go result pair \<open>(v, err)\<close> is a HOL pair, and a call that
  yields either a value or an error is a sum with the error text on the left.
  Byte slices and Go strings are both \<open>string\<close> (lists of 8-bit characters).
\<close>

subsection \<open>Data\<close>

text \<open>
  Modelled from the spec: \<open>types.Config\<close> and \<open>types.ServiceEndpoint\<close> are declared in
  \<open>pkg/types\<close>, which is not among the sources. The records hold the fields that
  client.go reads or writes (the registry's own protocol, host and port are what the
  base URL is derived from).
\<close>

record Config =
  Protocol :: string
  Host :: string
  Port :: int
  ServiceKey :: string
  ServiceHost :: string
  ServicePort :: int
  CheckRoute :: string
  CheckInterval :: string

record ServiceEndpoint =
  ServiceId :: string
  Host :: string
  Port :: int

text \<open>
  Modelled from the spec: the wire types (\<open>Versionable\<close>, \<open>BaseRequest\<close>,
  \<open>BaseResponse\<close>, \<open>HealthCheck\<close>, \<open>RegistrationDTO\<close>, \<open>AddRegistrationRequest\<close>,
  \<open>RegistrationResponse\<close>, \<open>MultiRegistrationsResponse\<close>) are declared in a file of package
  keeper that is not among the sources. Each record has the fields client.go names; the
  status of a registration record is filled in by the registry only.
\<close>

record Versionable =
  ApiVersion :: string

record BaseRequest =
  Versionable :: Versionable

record BaseResponse =
  Message :: string

record HealthCheck =
  Interval :: string
  Path :: string
  Type :: string

record RegistrationDTO =
  ServiceId :: string
  Status :: string
  Host :: string
  Port :: int
  HealthCheck :: HealthCheck

record AddRegistrationRequest =
  BaseRequest :: BaseRequest
  Registration :: RegistrationDTO

record RegistrationResponse =
  Registration :: RegistrationDTO

record MultiRegistrationsResponse =
  Registrations :: "RegistrationDTO list"

text \<open>The struct \<open>keeperClient\<close>, field by field.\<close>

record keeperClient =
  config :: Config
  keeperUrl :: string
  serviceKey :: string
  serviceHost :: string
  servicePort :: int
  healthCheckRoute :: string
  healthCheckInterval :: string

subsection \<open>HTTP\<close>

datatype http_method = MethodGet | MethodPost | MethodPut | MethodDelete

text \<open>
  A request as \<open>http.NewRequest\<close> builds it: method, URL, body bytes (\<open>http.NoBody\<close> is the
  empty body) and the headers set afterwards. A response as the client reads it: the
  status code, and what \<open>io.ReadAll\<close> of its body gives (the bytes, or a read error).
\<close>

record request =
  Method :: http_method
  URL :: string
  Header :: "(string \<times> string) list"
  Body :: string

record response =
  StatusCode :: int
  Body :: "string + string"

text \<open>
  The network is outside the program. The \<open>wire\<close> is the sequence of requests the
  client has sent so far; a \<open>transport\<close> says what \<open>(http.Client).Do\<close> returns for a request
  given everything sent before it: a transport error (connection failure, timeout) or
  a response. An operation that makes no network call leaves the wire as it found it.
\<close>

type_synonym wire = "request list"

type_synonym transport = "wire \<Rightarrow> request \<Rightarrow> string + response"

text \<open>
  What client.go uses and the sources do not contain, taken as parameters: the method
  \<open>GetRegistryUrl\<close> of the configuration, the constants of package keeper, the JSON
  encoder and decoders of the wire types (\<open>json.Marshal\<close>, \<open>json.Unmarshal\<close> at each target
  type; \<open>Inl\<close> carries the text of the error), and the URL check of \<open>http.NewRequest\<close>, the
  one way that call fails for the fixed methods used here (\<open>Some\<close> of the error text).
\<close>

record externals =
  GetRegistryUrl :: "Config \<Rightarrow> string"
  ApiVersion :: string
  ApiRegisterRoute :: string
  ApiAllRegistrationRoute :: string
  ApiRegistrationByServiceIdRoute :: string
  ApiPingRoute :: string
  ContentType :: string
  ContentTypeJSON :: string
  json_Marshal :: "AddRegistrationRequest \<Rightarrow> string + string"
  Unmarshal_BaseResponse :: "string \<Rightarrow> string + BaseResponse"
  Unmarshal_RegistrationResponse :: "string \<Rightarrow> string + RegistrationResponse"
  Unmarshal_MultiRegistrationsResponse :: "string \<Rightarrow> string + MultiRegistrationsResponse"
  url_error :: "string \<Rightarrow> string option"

text \<open>
  The standard-library calls the client makes. \<open>http.NewRequest\<close> fails on a URL that
  does not parse and otherwise gives a request without headers; \<open>Header.Set\<close> replaces
  the values stored under a key (the canonical spelling of keys is not modelled);
  \<open>(http.Client).Do\<close> puts the request on the wire and returns what the transport gives,
  a timeout being one of its errors; \<open>io.ReadAll\<close> gives what reading the body gives.
\<close>

definition NoBody :: string where
  "NoBody = []"

definition NewRequest :: "externals \<Rightarrow> http_method \<Rightarrow> string \<Rightarrow> string \<Rightarrow> string + request" where
  "NewRequest X m u b =
     (case url_error X u of
        Some err \<Rightarrow> Inl err
      | None \<Rightarrow> Inr \<lparr>Method = m, URL = u, Header = [], request.Body = b\<rparr>)"

definition Header_Set :: "request \<Rightarrow> string \<Rightarrow> string \<Rightarrow> request" where
  "Header_Set req key v = req\<lparr>Header := (key, v) # filter (\<lambda>kv. fst kv \<noteq> key) (Header req)\<rparr>"

definition Do :: "transport \<Rightarrow> request \<Rightarrow> wire \<Rightarrow> (string + response) \<times> wire" where
  "Do T req w = (T w req, w @ [req])"

definition ReadAll :: "string + string \<Rightarrow> string + string" where
  "ReadAll b = b"

subsection \<open>Construction\<close>

definition NewKeeperClient :: "externals \<Rightarrow> Config \<Rightarrow> keeperClient \<times> string option" where
  "NewKeeperClient X registryConfig =
     (let client = \<lparr>config = registryConfig,
                     keeperUrl = GetRegistryUrl X registryConfig,
                     serviceKey = ServiceKey registryConfig,
                     serviceHost = [],
                     servicePort = 0,
                     healthCheckRoute = [],
                     healthCheckInterval = []\<rparr>;
          client = (if ServiceHost registryConfig \<noteq> []
                    then client\<lparr>servicePort := ServicePort registryConfig,
                                serviceHost := ServiceHost registryConfig,
                                healthCheckRoute := CheckRoute registryConfig,
                                healthCheckInterval := CheckInterval registryConfig\<rparr>
                    else client)
      in (client, None))"

subsection \<open>Register\<close>

text \<open>
  Every method has the receiver \<open>k *keeperClient\<close> and may send requests, so every
  operation takes the client and the wire and returns its Go result together with the
  client and the wire as it leaves them.
\<close>

definition getRegistryByService ::
  "externals \<Rightarrow> transport \<Rightarrow> string \<Rightarrow> wire \<Rightarrow> (string + response) \<times> wire" where
  "getRegistryByService X T registryUrl w =
     (case NewRequest X MethodGet registryUrl NoBody of
        Inl err \<Rightarrow> (Inl (''failed to create http request: '' @ err), w)
      | Inr req \<Rightarrow>
          (case Do T req w of
             (Inl err, w') \<Rightarrow> (Inl (''http error: '' @ err), w')
           | (Inr resp, w') \<Rightarrow> (Inr resp, w')))"

definition registrationReq :: "externals \<Rightarrow> keeperClient \<Rightarrow> AddRegistrationRequest" where
  "registrationReq X k =
     \<lparr>BaseRequest = \<lparr>Versionable = \<lparr>Versionable.ApiVersion = externals.ApiVersion X\<rparr>\<rparr>,
      AddRegistrationRequest.Registration =
        \<lparr>RegistrationDTO.ServiceId = serviceKey k,
         Status = [],
         RegistrationDTO.Host = serviceHost k,
         RegistrationDTO.Port = servicePort k,
         HealthCheck = \<lparr>Interval = healthCheckInterval k,
                        Path = healthCheckRoute k,
                        Type = ''http''\<rparr>\<rparr>\<rparr>"

definition Register ::
  "externals \<Rightarrow> transport \<Rightarrow> keeperClient \<Rightarrow> wire \<Rightarrow> string option \<times> keeperClient \<times> wire" where
  "Register X T k w =
     (if serviceKey k = [] \<or> serviceHost k = [] \<or> servicePort k = 0 \<or>
         healthCheckRoute k = [] \<or> healthCheckInterval k = []
      then (Some ''unable to register service with keeper: Service information not set'', k, w)
      else
        (case json_Marshal X (registrationReq X k) of
           Inl err \<Rightarrow> (Some (''failed to encode registration request: '' @ err), k, w)
         | Inr jsonEncodedData \<Rightarrow>
             (case getRegistryByService X T
                     (GetRegistryUrl X (config k) @ ApiRegistrationByServiceIdRoute X @ serviceKey k) w of
                (Inl err, w1) \<Rightarrow>
                  (Some (''failed to check the '' @ serviceKey k @
                         '' service registry status: '' @ err), k, w1)
              | (Inr resp, w1) \<Rightarrow>
                  (let httpMethod = (if StatusCode resp = 200 then MethodPut else MethodPost)
                   in case NewRequest X httpMethod
                             (GetRegistryUrl X (config k) @ ApiRegisterRoute X) jsonEncodedData of
                        Inl err \<Rightarrow> (Some (''failed to create register request: '' @ err), k, w1)
                      | Inr req \<Rightarrow>
                          (case Do T (Header_Set req (ContentType X) (ContentTypeJSON X)) w1 of
                             (Inl err, w2) \<Rightarrow> (Some (''http error: '' @ err), k, w2)
                           | (Inr resp, w2) \<Rightarrow>
                               (if StatusCode resp \<noteq> 201 \<and> StatusCode resp \<noteq> 204
                                then
                                  (case ReadAll (Body resp) of
                                     Inl err \<Rightarrow>
                                       (Some (''failed to read response body: '' @ err), k, w2)
                                   | Inr bodyBytes \<Rightarrow>
                                       (case Unmarshal_BaseResponse X bodyBytes of
                                          Inl err \<Rightarrow>
                                            (Some (''failed to decode response body: '' @ err), k, w2)
                                        | Inr response \<Rightarrow>
                                            (Some (''failed to register '' @ serviceKey k @ '': '' @
                                                   Message response), k, w2)))
                                else (None, k, w2)))))))"

subsection \<open>Unregister, RegisterCheck, IsAlive\<close>

definition Unregister ::
  "externals \<Rightarrow> transport \<Rightarrow> keeperClient \<Rightarrow> wire \<Rightarrow> string option \<times> keeperClient \<times> wire" where
  "Unregister X T k w =
     (case NewRequest X MethodDelete
             (GetRegistryUrl X (config k) @ ApiRegistrationByServiceIdRoute X @ serviceKey k) NoBody of
        Inl err \<Rightarrow> (Some (''failed to create unregister request: '' @ err), k, w)
      | Inr req \<Rightarrow>
          (case Do T req w of
             (Inl err, w') \<Rightarrow> (Some (''http error: '' @ err), k, w')
           | (Inr resp, w') \<Rightarrow>
               (if StatusCode resp \<noteq> 204
                then
                  (case ReadAll (Body resp) of
                     Inl err \<Rightarrow> (Some (''failed to read response body: '' @ err), k, w')
                   | Inr bodyBytes \<Rightarrow>
                       (case Unmarshal_BaseResponse X bodyBytes of
                          Inl err \<Rightarrow> (Some (''failed to decode response body: '' @ err), k, w')
                        | Inr response \<Rightarrow>
                            (Some (''failed to unregister '' @ serviceKey k @ '': '' @
                                   Message response), k, w')))
                else (None, k, w'))))"

definition RegisterCheck ::
  "keeperClient \<Rightarrow> wire \<Rightarrow> string \<Rightarrow> string \<Rightarrow> string \<Rightarrow> string \<Rightarrow> string \<Rightarrow>
   string option \<times> keeperClient \<times> wire" where
  "RegisterCheck k w ident name notes url interval = (None, k, w)"

text \<open>\<open>(http.Client).Get\<close> of the standard library: build the GET request, then send it.\<close>

definition http_Get :: "externals \<Rightarrow> transport \<Rightarrow> string \<Rightarrow> wire \<Rightarrow> (string + response) \<times> wire" where
  "http_Get X T u w =
     (case NewRequest X MethodGet u NoBody of
        Inl err \<Rightarrow> (Inl err, w)
      | Inr req \<Rightarrow> Do T req w)"

definition IsAlive :: "externals \<Rightarrow> transport \<Rightarrow> keeperClient \<Rightarrow> wire \<Rightarrow> bool \<times> keeperClient \<times> wire" where
  "IsAlive X T k w =
     (case http_Get X T (keeperUrl k @ ApiPingRoute X) w of
        (Inl err, w') \<Rightarrow> (False, k, w')
      | (Inr resp, w') \<Rightarrow>
          (if StatusCode resp \<ge> 200 \<and> StatusCode resp < 300
           then (True, k, w')
           else (False, k, w')))"

subsection \<open>Lookups\<close>

text \<open>The zero value \<open>types.ServiceEndpoint{}\<close>.\<close>

definition ServiceEndpoint_zero :: ServiceEndpoint where
  "ServiceEndpoint_zero = \<lparr>ServiceEndpoint.ServiceId = [], Host = [], Port = 0\<rparr>"

definition GetServiceEndpoint ::
  "externals \<Rightarrow> transport \<Rightarrow> keeperClient \<Rightarrow> wire \<Rightarrow> string \<Rightarrow>
   (ServiceEndpoint \<times> string option) \<times> keeperClient \<times> wire" where
  "GetServiceEndpoint X T k w key =
     (case NewRequest X MethodGet
             (GetRegistryUrl X (config k) @ ApiRegistrationByServiceIdRoute X @ key) NoBody of
        Inl err \<Rightarrow>
          ((ServiceEndpoint_zero, Some (''failed to create http request: '' @ err)), k, w)
      | Inr req \<Rightarrow>
          (case Do T req w of
             (Inl err, w') \<Rightarrow> ((ServiceEndpoint_zero, Some (''http error: '' @ err)), k, w')
           | (Inr resp, w') \<Rightarrow>
               (case ReadAll (Body resp) of
                  Inl err \<Rightarrow>
                    ((ServiceEndpoint_zero, Some (''failed to read response body: '' @ err)), k, w')
                | Inr bodyBytes \<Rightarrow>
                    (if StatusCode resp \<noteq> 200
                     then
                       (case Unmarshal_BaseResponse X bodyBytes of
                          Inl err \<Rightarrow>
                            ((ServiceEndpoint_zero,
                              Some (''failed to decode response body: '' @ err)), k, w')
                        | Inr response \<Rightarrow>
                            ((ServiceEndpoint_zero,
                              Some (''failed to get service endpoint: '' @ Message response)), k, w'))
                     else
                       (case Unmarshal_RegistrationResponse X bodyBytes of
                          Inl err \<Rightarrow>
                            ((ServiceEndpoint_zero,
                              Some (''failed to decode response body: '' @ err)), k, w')
                        | Inr r \<Rightarrow>
                            ((\<lparr>ServiceEndpoint.ServiceId = key,
                               Host = RegistrationDTO.Host (RegistrationResponse.Registration r),
                               Port = RegistrationDTO.Port (RegistrationResponse.Registration r)\<rparr>,
                              None), k, w'))))))"

text \<open>
  The loop \<open>for idx, r := range responseDTO.Registrations\<close>: it walks the records from
  index \<open>idx\<close> on and stores the endpoint of each at its index in the slice \<open>endpoints\<close>.
\<close>

fun range_Registrations ::
  "nat \<Rightarrow> RegistrationDTO list \<Rightarrow> ServiceEndpoint list \<Rightarrow> ServiceEndpoint list" where
  "range_Registrations idx [] endpoints = endpoints"
| "range_Registrations idx (r # rs) endpoints =
     range_Registrations (Suc idx) rs
       (endpoints[idx := \<lparr>ServiceEndpoint.ServiceId = RegistrationDTO.ServiceId r,
                          Host = RegistrationDTO.Host r,
                          Port = RegistrationDTO.Port r\<rparr>])"

text \<open>
  A returned slice is \<open>None\<close> when the code returns \<open>nil\<close> and \<open>Some\<close> of its elements
  otherwise; \<open>make([]types.ServiceEndpoint, n)\<close> is \<open>n\<close> zero values.
\<close>

definition GetAllServiceEndpoints ::
  "externals \<Rightarrow> transport \<Rightarrow> keeperClient \<Rightarrow> wire \<Rightarrow>
   (ServiceEndpoint list option \<times> string option) \<times> keeperClient \<times> wire" where
  "GetAllServiceEndpoints X T k w =
     (case NewRequest X MethodGet
             (GetRegistryUrl X (config k) @ ApiAllRegistrationRoute X) NoBody of
        Inl err \<Rightarrow> ((None, Some (''failed to create http request: '' @ err)), k, w)
      | Inr req \<Rightarrow>
          (case Do T req w of
             (Inl err, w') \<Rightarrow> ((None, Some (''http error: '' @ err)), k, w')
           | (Inr resp, w') \<Rightarrow>
               (case ReadAll (Body resp) of
                  Inl err \<Rightarrow> ((None, Some (''failed to read response body: '' @ err)), k, w')
                | Inr bodyBytes \<Rightarrow>
                    (if StatusCode resp \<noteq> 200
                     then
                       (case Unmarshal_BaseResponse X bodyBytes of
                          Inl err \<Rightarrow>
                            ((None, Some (''failed to decode response body: '' @ err)), k, w')
                        | Inr response \<Rightarrow>
                            ((None, Some (''failed to get all service endpoints: '' @
                                          Message response)), k, w'))
                     else
                       (case Unmarshal_MultiRegistrationsResponse X bodyBytes of
                          Inl err \<Rightarrow>
                            ((None, Some (''failed to decode response body: '' @ err)), k, w')
                        | Inr responseDTO \<Rightarrow>
                            (let endpoints = replicate (length (Registrations responseDTO))
                                               ServiceEndpoint_zero
                             in ((Some (range_Registrations 0 (Registrations responseDTO) endpoints),
                                  None), k, w')))))))"

subsection \<open>Availability\<close>

text \<open>
  \<open>strings.EqualFold\<close> of the standard library, byte by byte: equal bytes match, and so
  do an upper-case ASCII letter and its lower-case form; the strings must end together.
  (The library also folds a few non-ASCII letters onto ASCII ones, none of them onto
  \<open>u\<close> or \<open>p\<close>, the letters the client compares with.)
\<close>

definition ascii_upper_lower :: "char \<Rightarrow> char \<Rightarrow> bool" where
  "ascii_upper_lower sr tr =
     ((65::nat) \<le> of_char sr \<and> of_char sr \<le> (90::nat) \<and> of_char tr = of_char sr + (32::nat))"

fun EqualFold :: "string \<Rightarrow> string \<Rightarrow> bool" where
  "EqualFold [] [] = True"
| "EqualFold (sr # s) (tr # t) =
     (if tr = sr then EqualFold s t
      else if (if (of_char tr :: nat) < of_char sr
               then ascii_upper_lower tr sr else ascii_upper_lower sr tr)
           then EqualFold s t
           else False)"
| "EqualFold s t = False"

definition IsServiceAvailable ::
  "externals \<Rightarrow> transport \<Rightarrow> keeperClient \<Rightarrow> wire \<Rightarrow> string \<Rightarrow>
   (bool \<times> string option) \<times> keeperClient \<times> wire" where
  "IsServiceAvailable X T k w key =
     (case getRegistryByService X T
             (GetRegistryUrl X (config k) @ ApiRegistrationByServiceIdRoute X @ key) w of
        (Inl err, w') \<Rightarrow>
          ((False, Some (''failed to get '' @ key @ '' service registry: '' @ err)), k, w')
      | (Inr resp, w') \<Rightarrow>
          (case ReadAll (Body resp) of
             Inl err \<Rightarrow> ((False, Some (''failed to read response body: '' @ err)), k, w')
           | Inr bodyBytes \<Rightarrow>
               (if StatusCode resp = 200
                then
                  (case Unmarshal_RegistrationResponse X bodyBytes of
                     Inl err \<Rightarrow>
                       ((False, Some (''failed to decode response body: '' @ err)), k, w')
                   | Inr response \<Rightarrow>
                       (if EqualFold (Status (RegistrationResponse.Registration response)) ''up''
                        then ((True, None), k, w')
                        else ((False, Some ('' '' @ key @ '' service not healthy...'')), k, w')))
                else if StatusCode resp = 404
                then ((False, Some (key @ '' service is not registered. Might not have started... '')),
                      k, w')
                else
                  (case Unmarshal_BaseResponse X bodyBytes of
                     Inl err \<Rightarrow>
                       ((False, Some (''failed to decode response body: '' @ err)), k, w')
                   | Inr response \<Rightarrow>
                       ((False, Some (''failed to check service availability: '' @
                                      Message response)), k, w')))))"

section \<open>A sample registry\<close>

text \<open>
  Concrete values for the parameters, to run the operations on: an encoder and decoders
  for the few bodies that occur, a configuration, two clients and two registries.
\<close>

fun decimal :: "nat \<Rightarrow> string" where
  "decimal n = (if n < 10 then [''0123456789'' ! n]
                else decimal (n div 10) @ [''0123456789'' ! (n mod 10)])"

declare decimal.simps [simp del]

definition sample_Marshal :: "AddRegistrationRequest \<Rightarrow> string + string" where
  \<open>sample_Marshal r =
     Inr (''{"apiVersion":"'' @ Versionable.ApiVersion (Versionable (BaseRequest r)) @
          ''","registration":{"serviceId":"'' @
          RegistrationDTO.ServiceId (AddRegistrationRequest.Registration r) @
          ''","host":"'' @ RegistrationDTO.Host (AddRegistrationRequest.Registration r) @
          ''","port":'' @ decimal (nat (RegistrationDTO.Port (AddRegistrationRequest.Registration r))) @
          '',"healthCheck":{"interval":"'' @
          Interval (HealthCheck (AddRegistrationRequest.Registration r)) @
          ''","path":"'' @ Path (HealthCheck (AddRegistrationRequest.Registration r)) @
          ''","type":"'' @ Type (HealthCheck (AddRegistrationRequest.Registration r)) @
          ''"}}}'')\<close>

definition sample_data_record :: RegistrationDTO where
  "sample_data_record =
     \<lparr>RegistrationDTO.ServiceId = ''core-data'', Status = ''UP'',
      RegistrationDTO.Host = ''10.0.0.7'', RegistrationDTO.Port = 59880,
      HealthCheck = \<lparr>Interval = ''10s'', Path = ''/api/v3/ping'', Type = ''http''\<rparr>\<rparr>"

definition sample_command_record :: RegistrationDTO where
  "sample_command_record =
     \<lparr>RegistrationDTO.ServiceId = ''core-command'', Status = ''DOWN'',
      RegistrationDTO.Host = ''10.0.0.9'', RegistrationDTO.Port = 59882,
      HealthCheck = \<lparr>Interval = ''10s'', Path = ''/api/v3/ping'', Type = ''http''\<rparr>\<rparr>"

definition sample_Unmarshal_BaseResponse :: "string \<Rightarrow> string + BaseResponse" where
  \<open>sample_Unmarshal_BaseResponse b =
     (if b = ''{"message":"no registration for this service"}''
      then Inr \<lparr>Message = ''no registration for this service''\<rparr>
      else if b = ''{"message":"keeper is busy"}''
      then Inr \<lparr>Message = ''keeper is busy''\<rparr>
      else Inl ''unexpected end of JSON input'')\<close>

definition sample_Unmarshal_RegistrationResponse :: "string \<Rightarrow> string + RegistrationResponse" where
  \<open>sample_Unmarshal_RegistrationResponse b =
     (if b = ''{"registration":core-data}''
      then Inr \<lparr>RegistrationResponse.Registration = sample_data_record\<rparr>
      else if b = ''{"registration":core-command}''
      then Inr \<lparr>RegistrationResponse.Registration = sample_command_record\<rparr>
      else Inl ''unexpected end of JSON input'')\<close>

definition sample_Unmarshal_MultiRegistrationsResponse ::
  "string \<Rightarrow> string + MultiRegistrationsResponse" where
  \<open>sample_Unmarshal_MultiRegistrationsResponse b =
     (if b = ''{"registrations":[core-data,core-command]}''
      then Inr \<lparr>Registrations = [sample_data_record, sample_command_record]\<rparr>
      else if b = ''{"registrations":[]}''
      then Inr \<lparr>Registrations = []\<rparr>
      else Inl ''unexpected end of JSON input'')\<close>

definition sample_externals :: externals where
  "sample_externals =
     \<lparr>GetRegistryUrl = (\<lambda>c. Protocol c @ ''://'' @ Config.Host c @ '':'' @ decimal (nat (Config.Port c))),
      externals.ApiVersion = ''v3'',
      ApiRegisterRoute = ''/api/v3/registration'',
      ApiAllRegistrationRoute = ''/api/v3/registration/all'',
      ApiRegistrationByServiceIdRoute = ''/api/v3/registration/'',
      ApiPingRoute = ''/api/v3/ping'',
      ContentType = ''Content-Type'',
      ContentTypeJSON = ''application/json'',
      json_Marshal = sample_Marshal,
      Unmarshal_BaseResponse = sample_Unmarshal_BaseResponse,
      Unmarshal_RegistrationResponse = sample_Unmarshal_RegistrationResponse,
      Unmarshal_MultiRegistrationsResponse = sample_Unmarshal_MultiRegistrationsResponse,
      url_error = (\<lambda>u. if filter (\<lambda>c. c = CHR '' '') u = [] then None
                        else Some ''invalid character in URL'')\<rparr>"

definition sample_config :: Config where
  "sample_config =
     \<lparr>Protocol = ''http'', Config.Host = ''localhost'', Config.Port = 59890,
      ServiceKey = ''core-data'', ServiceHost = ''10.0.0.7'', ServicePort = 59880,
      CheckRoute = ''/api/v3/ping'', CheckInterval = ''10s''\<rparr>"

definition sample_client :: keeperClient where
  "sample_client =
     \<lparr>config = sample_config, keeperUrl = ''http://localhost:59890'',
      serviceKey = ''core-data'', serviceHost = ''10.0.0.7'', servicePort = 59880,
      healthCheckRoute = ''/api/v3/ping'', healthCheckInterval = ''10s''\<rparr>"

text \<open>
  A registry that knows a service once a create request has been sent for it.
\<close>

definition sample_registry :: transport where
  \<open>sample_registry w req =
     (if URL req = ''http://localhost:59890/api/v3/ping''
      then Inr \<lparr>StatusCode = 200, Body = Inr ''{"timestamp":"now"}''\<rparr>
      else if URL req = ''http://localhost:59890/api/v3/registration''
      then (case Method req of
              MethodPost \<Rightarrow> Inr \<lparr>StatusCode = 201, Body = Inr []\<rparr>
            | MethodPut \<Rightarrow> Inr \<lparr>StatusCode = 204, Body = Inr []\<rparr>
            | MethodGet \<Rightarrow> Inr \<lparr>StatusCode = 405, Body = Inr []\<rparr>
            | MethodDelete \<Rightarrow> Inr \<lparr>StatusCode = 405, Body = Inr []\<rparr>)
      else if URL req = ''http://localhost:59890/api/v3/registration/all''
      then Inr \<lparr>StatusCode = 200, Body = Inr ''{"registrations":[core-data,core-command]}''\<rparr>
      else if URL req = ''http://localhost:59890/api/v3/registration/core-command'' \<or>
              URL req = ''http://localhost:59890/api/v3/registration/CORE-COMMAND''
      then Inr \<lparr>StatusCode = 200, Body = Inr ''{"registration":core-command}''\<rparr>
      else if URL req = ''http://localhost:59890/api/v3/registration/core-data''
      then (if Method req = MethodDelete
            then Inr \<lparr>StatusCode = 204, Body = Inr []\<rparr>
            else if filter (\<lambda>r. Method r = MethodPost) w = []
            then Inr \<lparr>StatusCode = 404,
                      Body = Inr ''{"message":"no registration for this service"}''\<rparr>
            else Inr \<lparr>StatusCode = 200, Body = Inr ''{"registration":core-data}''\<rparr>)
      else if URL req = ''http://localhost:59890/api/v3/registration/core-metadata''
      then Inr \<lparr>StatusCode = 404,
                Body = Inr ''{"message":"no registration for this service"}''\<rparr>
      else Inl ''connection refused'')\<close>

text \<open>A registry that answers every request with status 500 and an error envelope.\<close>

definition busy_registry :: transport where
  \<open>busy_registry w req = Inr \<lparr>StatusCode = 500, Body = Inr ''{"message":"keeper is busy"}''\<rparr>\<close>

text \<open>A registry that holds no record, and one that cannot be reached.\<close>

definition empty_registry :: transport where
  \<open>empty_registry w req = Inr \<lparr>StatusCode = 200, Body = Inr ''{"registrations":[]}''\<rparr>\<close>

definition down_registry :: transport where
  "down_registry w req = Inl ''connection refused''"

text \<open>A configuration that names the service host and leaves out the rest.\<close>

definition host_only_config :: Config where
  "host_only_config =
     \<lparr>Protocol = ''http'', Config.Host = ''localhost'', Config.Port = 59890,
      ServiceKey = ''core-data'', ServiceHost = ''10.0.0.7'', ServicePort = 0,
      CheckRoute = [], CheckInterval = []\<rparr>"

definition lookup_client :: keeperClient where
  "lookup_client =
     \<lparr>config = sample_config\<lparr>ServiceHost := []\<rparr>, keeperUrl = ''http://localhost:59890'',
      serviceKey = ''core-data'', serviceHost = [], servicePort = 0,
      healthCheckRoute = [], healthCheckInterval = []\<rparr>"

definition sample_probe :: request where
  "sample_probe =
     \<lparr>Method = MethodGet, URL = ''http://localhost:59890/api/v3/registration/core-data'',
      Header = [], request.Body = []\<rparr>"

definition sample_body :: string where
  \<open>sample_body = ''{"apiVersion":"v3","registration":{"serviceId":"core-data","host":"10.0.0.7","port":59880,"healthCheck":{"interval":"10s","path":"/api/v3/ping","type":"http"}}}''\<close>

definition sample_register :: "http_method \<Rightarrow> request" where
  "sample_register m =
     \<lparr>Method = m, URL = ''http://localhost:59890/api/v3/registration'',
      Header = [(''Content-Type'', ''application/json'')], request.Body = sample_body\<rparr>"

section \<open>Properties\<close>

subsection \<open>Auxiliary facts\<close>

lemma getRegistryByService_cases:
  "getRegistryByService X T u w =
     (case url_error X u of
        Some err \<Rightarrow> (Inl (''failed to create http request: '' @ err), w)
      | None \<Rightarrow>
          (case T w \<lparr>Method = MethodGet, URL = u, Header = [], request.Body = []\<rparr> of
             Inl err \<Rightarrow> (Inl (''http error: '' @ err),
                          w @ [\<lparr>Method = MethodGet, URL = u, Header = [], request.Body = []\<rparr>])
           | Inr resp \<Rightarrow> (Inr resp,
                          w @ [\<lparr>Method = MethodGet, URL = u, Header = [], request.Body = []\<rparr>])))"
  by (simp add: getRegistryByService_def NewRequest_def NoBody_def Do_def
           split: option.split sum.split)

lemma Register_configured:
  assumes pre: "serviceKey k \<noteq> []" "serviceHost k \<noteq> []" "servicePort k \<noteq> 0"
               "healthCheckRoute k \<noteq> []" "healthCheckInterval k \<noteq> []"
    and enc: "json_Marshal X (registrationReq X k) = Inr jsonEncodedData"
    and probe_url: "url_error X (GetRegistryUrl X (config k) @
                      ApiRegistrationByServiceIdRoute X @ serviceKey k) = None"
    and probe: "T w \<lparr>Method = MethodGet,
                      URL = GetRegistryUrl X (config k) @ ApiRegistrationByServiceIdRoute X @
                            serviceKey k,
                      Header = [], request.Body = []\<rparr> = Inr found"
    and reg_url: "url_error X (GetRegistryUrl X (config k) @ ApiRegisterRoute X) = None"
  shows "Register X T k w =
     (let probe = \<lparr>Method = MethodGet,
                    URL = GetRegistryUrl X (config k) @ ApiRegistrationByServiceIdRoute X @
                          serviceKey k,
                    Header = [], request.Body = []\<rparr>;
          req = \<lparr>Method = (if StatusCode found = 200 then MethodPut else MethodPost),
                  URL = GetRegistryUrl X (config k) @ ApiRegisterRoute X,
                  Header = [(ContentType X, ContentTypeJSON X)],
                  request.Body = jsonEncodedData\<rparr>
      in (case T (w @ [probe]) req of
            Inl err \<Rightarrow> Some (''http error: '' @ err)
          | Inr resp \<Rightarrow>
              if StatusCode resp = 201 \<or> StatusCode resp = 204 then None
              else (case Body resp of
                      Inl err \<Rightarrow> Some (''failed to read response body: '' @ err)
                    | Inr bodyBytes \<Rightarrow>
                        (case Unmarshal_BaseResponse X bodyBytes of
                           Inl err \<Rightarrow> Some (''failed to decode response body: '' @ err)
                         | Inr response \<Rightarrow>
                             Some (''failed to register '' @ serviceKey k @ '': '' @
                                   Message response))),
          k, w @ [probe, req]))"
  using assms
  by (simp add: Register_def getRegistryByService_cases NewRequest_def Header_Set_def Do_def
                ReadAll_def Let_def split: sum.split)

lemma Register_encode_failure_sends_nothing:
  assumes "serviceKey k \<noteq> []" "serviceHost k \<noteq> []" "servicePort k \<noteq> 0"
          "healthCheckRoute k \<noteq> []" "healthCheckInterval k \<noteq> []"
    and "json_Marshal X (registrationReq X k) = Inl err"
  shows "Register X T k w = (Some (''failed to encode registration request: '' @ err), k, w)"
  using assms by (simp add: Register_def)

lemma range_Registrations_take:
  "length endpoints = idx + length rs \<Longrightarrow>
   range_Registrations idx rs endpoints =
     take idx endpoints @
     map (\<lambda>r. \<lparr>ServiceEndpoint.ServiceId = RegistrationDTO.ServiceId r,
                Host = RegistrationDTO.Host r, Port = RegistrationDTO.Port r\<rparr>) rs"
proof (induction rs arbitrary: idx endpoints)
  case Nil
  then show ?case by simp
next
  case (Cons r rs)
  let ?e = "\<lparr>ServiceEndpoint.ServiceId = RegistrationDTO.ServiceId r,
             Host = RegistrationDTO.Host r, Port = RegistrationDTO.Port r\<rparr>"
  from Cons.prems have len: "idx < length endpoints" by simp
  have "range_Registrations idx (r # rs) endpoints =
          range_Registrations (Suc idx) rs (endpoints[idx := ?e])"
    by simp
  also have "\<dots> = take (Suc idx) (endpoints[idx := ?e]) @
     map (\<lambda>r. \<lparr>ServiceEndpoint.ServiceId = RegistrationDTO.ServiceId r,
                Host = RegistrationDTO.Host r, Port = RegistrationDTO.Port r\<rparr>) rs"
    using Cons.prems by (intro Cons.IH) simp
  also have "take (Suc idx) (endpoints[idx := ?e]) = take idx endpoints @ [?e]"
    using len by (simp add: take_Suc_conv_app_nth)
  finally show ?case by simp
qed

lemma range_Registrations_map:
  "range_Registrations 0 rs (replicate (length rs) ServiceEndpoint_zero) =
     map (\<lambda>r. \<lparr>ServiceEndpoint.ServiceId = RegistrationDTO.ServiceId r,
                Host = RegistrationDTO.Host r, Port = RegistrationDTO.Port r\<rparr>) rs"
  by (simp add: range_Registrations_take)

lemma ascii_fold_u:
  "(CHR ''u'' = c \<or> (if (of_char (CHR ''u'') :: nat) < of_char c
                      then ascii_upper_lower (CHR ''u'') c
                      else ascii_upper_lower c (CHR ''u''))) =
   (c = CHR ''u'' \<or> c = CHR ''U'')"
proof -
  have "(of_char c = (85::nat)) = (c = CHR ''U'')"
    using of_char_eq_iff [where ?'a = nat, of c "CHR ''U''"] by simp
  then show ?thesis
    by (auto simp: ascii_upper_lower_def)
qed

lemma ascii_fold_p:
  "(CHR ''p'' = c \<or> (if (of_char (CHR ''p'') :: nat) < of_char c
                      then ascii_upper_lower (CHR ''p'') c
                      else ascii_upper_lower c (CHR ''p''))) =
   (c = CHR ''p'' \<or> c = CHR ''P'')"
proof -
  have "(of_char c = (80::nat)) = (c = CHR ''P'')"
    using of_char_eq_iff [where ?'a = nat, of c "CHR ''P''"] by simp
  then show ?thesis
    by (auto simp: ascii_upper_lower_def)
qed

lemma EqualFold_step:
  "EqualFold (sr # s) (tr # t) =
     ((tr = sr \<or> (if (of_char tr :: nat) < of_char sr
                   then ascii_upper_lower tr sr else ascii_upper_lower sr tr)) \<and>
      EqualFold s t)"
  by simp

lemma EqualFold_empty: "EqualFold s [] = (s = [])"
  by (cases s) simp_all

lemma EqualFold_nonempty:
  "EqualFold s (tr # t) = (\<exists>sr s'. s = sr # s' \<and> EqualFold (sr # s') (tr # t))"
  by (cases s) simp_all

lemma EqualFold_up:
  "EqualFold s ''up'' = (s = ''up'' \<or> s = ''Up'' \<or> s = ''uP'' \<or> s = ''UP'')"
proof -
  have "EqualFold s ''up'' =
          (\<exists>a b. s = [a, b] \<and> (a = CHR ''u'' \<or> a = CHR ''U'') \<and>
                  (b = CHR ''p'' \<or> b = CHR ''P''))"
    apply (subst EqualFold_nonempty)
    apply (simp only: EqualFold_step ascii_fold_u)
    apply (subst EqualFold_nonempty)
    apply (simp only: EqualFold_step ascii_fold_p EqualFold_empty)
    apply auto
    done
  then show ?thesis by auto
qed

subsection \<open>Facts about the sample registry\<close>

lemma sample_Marshal_client:
  "json_Marshal sample_externals (registrationReq sample_externals sample_client) = Inr sample_body"
  by (simp add: sample_externals_def sample_Marshal_def registrationReq_def sample_client_def
                sample_body_def decimal.simps)

lemma sample_urls:
  "GetRegistryUrl sample_externals (config sample_client) @
     ApiRegistrationByServiceIdRoute sample_externals @ serviceKey sample_client =
   ''http://localhost:59890/api/v3/registration/core-data''"
  "GetRegistryUrl sample_externals (config sample_client) @ ApiRegisterRoute sample_externals =
   ''http://localhost:59890/api/v3/registration''"
  "ContentType sample_externals = ''Content-Type''"
  "ContentTypeJSON sample_externals = ''application/json''"
  "url_error sample_externals ''http://localhost:59890/api/v3/registration/core-data'' = None"
  "url_error sample_externals ''http://localhost:59890/api/v3/registration'' = None"
  by (simp_all add: sample_externals_def sample_client_def sample_config_def decimal.simps)

lemma sample_client_fields:
  "serviceKey sample_client \<noteq> []" "serviceHost sample_client \<noteq> []"
  "servicePort sample_client \<noteq> 0" "healthCheckRoute sample_client \<noteq> []"
  "healthCheckInterval sample_client \<noteq> []" "serviceKey sample_client = ''core-data''"
  by (simp_all add: sample_client_def)

lemma sample_routes:
  "GetRegistryUrl sample_externals (config sample_client) = ''http://localhost:59890''"
  "ApiRegistrationByServiceIdRoute sample_externals = ''/api/v3/registration/''"
  "ApiAllRegistrationRoute sample_externals = ''/api/v3/registration/all''"
  "ApiPingRoute sample_externals = ''/api/v3/ping''"
  "keeperUrl sample_client = ''http://localhost:59890''"
  by (simp_all add: sample_externals_def sample_client_def sample_config_def decimal.simps)

lemma sample_url_error:
  "url_error sample_externals u =
     (if filter (\<lambda>c. c = CHR '' '') u = [] then None else Some ''invalid character in URL'')"
  by (simp add: sample_externals_def)

lemma sample_decoders:
  "Unmarshal_BaseResponse sample_externals = sample_Unmarshal_BaseResponse"
  "Unmarshal_RegistrationResponse sample_externals = sample_Unmarshal_RegistrationResponse"
  "Unmarshal_MultiRegistrationsResponse sample_externals =
     sample_Unmarshal_MultiRegistrationsResponse"
  by (simp_all add: sample_externals_def)

subsection \<open>The claims\<close>

text \<open>
  C1. A client that lacks the service key, the service host, the service port, the
  health-check route or the health-check interval (an empty string, a zero port) is
  refused by Register with the configuration error, and nothing is sent: the wire and
  the client come back as they were, whatever the network would have answered.
\<close>

theorem Register_unconfigured_no_network_call:
  assumes "serviceKey k = [] \<or> serviceHost k = [] \<or> servicePort k = 0 \<or>
           healthCheckRoute k = [] \<or> healthCheckInterval k = []"
  shows "Register X T k w =
           (Some ''unable to register service with keeper: Service information not set'', k, w)"
  using assms unfolding Register_def by simp

theorem Register_unconfigured_no_network_call_witness:
  "serviceHost lookup_client = [] \<and>
   Register sample_externals sample_registry lookup_client [] =
     (Some ''unable to register service with keeper: Service information not set'',
      lookup_client, [])"
  using Register_unconfigured_no_network_call
          [of lookup_client sample_externals sample_registry "[]"]
  by (simp add: lookup_client_def)

text \<open>
  C2. A client that satisfies the registration preconditions first asks the registry for
  the record under its own service key, then sends the registration with PUT when the
  probe answered 200 and with POST for any other probe status. Register succeeds exactly
  when the final status is 201 or 204; for any other final status whose body decodes as
  an error envelope it fails with a registration error that carries the envelope's message.
\<close>

theorem Register_probe_then_put_or_post:
  assumes pre: "serviceKey k \<noteq> []" "serviceHost k \<noteq> []" "servicePort k \<noteq> 0"
               "healthCheckRoute k \<noteq> []" "healthCheckInterval k \<noteq> []"
    and enc: "json_Marshal X (registrationReq X k) = Inr jsonEncodedData"
    and probe_url: "url_error X (GetRegistryUrl X (config k) @
                      ApiRegistrationByServiceIdRoute X @ serviceKey k) = None"
    and reg_url: "url_error X (GetRegistryUrl X (config k) @ ApiRegisterRoute X) = None"
    and probe_req: "probe = \<lparr>Method = MethodGet,
                      URL = GetRegistryUrl X (config k) @ ApiRegistrationByServiceIdRoute X @
                            serviceKey k,
                      Header = [], request.Body = []\<rparr>"
    and probe: "T w probe = Inr found"
    and reg_req: "req = \<lparr>Method = (if StatusCode found = 200 then MethodPut else MethodPost),
                  URL = GetRegistryUrl X (config k) @ ApiRegisterRoute X,
                  Header = [(ContentType X, ContentTypeJSON X)],
                  request.Body = jsonEncodedData\<rparr>"
    and final: "T (w @ [probe]) req = Inr resp"
  shows "snd (snd (Register X T k w)) = w @ [probe, req] \<and>
         (fst (Register X T k w) = None) = (StatusCode resp = 201 \<or> StatusCode resp = 204) \<and>
         (\<forall>bodyBytes response.
            StatusCode resp \<noteq> 201 \<and> StatusCode resp \<noteq> 204 \<and> Body resp = Inr bodyBytes \<and>
            Unmarshal_BaseResponse X bodyBytes = Inr response \<longrightarrow>
            fst (Register X T k w) =
              Some (''failed to register '' @ serviceKey k @ '': '' @ Message response))"
proof -
  have R: "Register X T k w =
             (if StatusCode resp = 201 \<or> StatusCode resp = 204 then None
              else (case Body resp of
                      Inl err \<Rightarrow> Some (''failed to read response body: '' @ err)
                    | Inr bodyBytes \<Rightarrow>
                        (case Unmarshal_BaseResponse X bodyBytes of
                           Inl err \<Rightarrow> Some (''failed to decode response body: '' @ err)
                         | Inr response \<Rightarrow>
                             Some (''failed to register '' @ serviceKey k @ '': '' @
                                   Message response))),
              k, w @ [probe, req])"
    using Register_configured [where k = k and X = X and T = T and w = w and found = found
                                 and jsonEncodedData = jsonEncodedData]
          assms
    by (simp add: Let_def)
  show ?thesis
    unfolding R by (simp split: sum.split)
qed

theorem Register_probe_then_put_or_post_witness:
  \<open>(sample_registry [] sample_probe =
      Inr \<lparr>StatusCode = 404, Body = Inr ''{"message":"no registration for this service"}''\<rparr> \<and>
    sample_registry [sample_probe] (sample_register MethodPost) =
      Inr \<lparr>StatusCode = 201, Body = Inr []\<rparr> \<and>
    fst (Register sample_externals sample_registry sample_client []) = None \<and>
    snd (snd (Register sample_externals sample_registry sample_client [])) =
      [sample_probe, sample_register MethodPost]) \<and>
   (sample_registry [sample_register MethodPost] sample_probe =
      Inr \<lparr>StatusCode = 200, Body = Inr ''{"registration":core-data}''\<rparr> \<and>
    sample_registry [sample_register MethodPost, sample_probe] (sample_register MethodPut) =
      Inr \<lparr>StatusCode = 204, Body = Inr []\<rparr> \<and>
    fst (Register sample_externals sample_registry sample_client [sample_register MethodPost]) =
      None \<and>
    snd (snd (Register sample_externals sample_registry sample_client
                [sample_register MethodPost])) =
      [sample_register MethodPost, sample_probe, sample_register MethodPut]) \<and>
   (busy_registry [] sample_probe =
      Inr \<lparr>StatusCode = 500, Body = Inr ''{"message":"keeper is busy"}''\<rparr> \<and>
    busy_registry [sample_probe] (sample_register MethodPost) =
      Inr \<lparr>StatusCode = 500, Body = Inr ''{"message":"keeper is busy"}''\<rparr> \<and>
    fst (Register sample_externals busy_registry sample_client []) =
      Some ''failed to register core-data: keeper is busy'' \<and>
    snd (snd (Register sample_externals busy_registry sample_client [])) =
      [sample_probe, sample_register MethodPost])\<close>
proof -
  have created:
    \<open>sample_registry [] sample_probe =
       Inr \<lparr>StatusCode = 404, Body = Inr ''{"message":"no registration for this service"}''\<rparr>\<close>
    \<open>sample_registry [sample_probe] (sample_register MethodPost) =
       Inr \<lparr>StatusCode = 201, Body = Inr []\<rparr>\<close>
    by (simp_all add: sample_registry_def sample_probe_def sample_register_def)
  have updated:
    \<open>sample_registry [sample_register MethodPost] sample_probe =
       Inr \<lparr>StatusCode = 200, Body = Inr ''{"registration":core-data}''\<rparr>\<close>
    \<open>sample_registry [sample_register MethodPost, sample_probe] (sample_register MethodPut) =
       Inr \<lparr>StatusCode = 204, Body = Inr []\<rparr>\<close>
    by (simp_all add: sample_registry_def sample_probe_def sample_register_def)
  have busy:
    \<open>busy_registry [] sample_probe =
       Inr \<lparr>StatusCode = 500, Body = Inr ''{"message":"keeper is busy"}''\<rparr>\<close>
    \<open>busy_registry [sample_probe] (sample_register MethodPost) =
       Inr \<lparr>StatusCode = 500, Body = Inr ''{"message":"keeper is busy"}''\<rparr>\<close>
    by (simp_all add: busy_registry_def)
  have envelope:
    \<open>Unmarshal_BaseResponse sample_externals ''{"message":"keeper is busy"}'' =
       Inr \<lparr>Message = ''keeper is busy''\<rparr>\<close>
    by (simp add: sample_externals_def sample_Unmarshal_BaseResponse_def)
  have probe: "sample_probe =
      \<lparr>Method = MethodGet,
       URL = GetRegistryUrl sample_externals (config sample_client) @
             ApiRegistrationByServiceIdRoute sample_externals @ serviceKey sample_client,
       Header = [], request.Body = []\<rparr>"
    by (simp add: sample_urls sample_probe_def)
  have req: "sample_register (if StatusCode found = 200 then MethodPut else MethodPost) =
      \<lparr>Method = (if StatusCode found = 200 then MethodPut else MethodPost),
       URL = GetRegistryUrl sample_externals (config sample_client) @
             ApiRegisterRoute sample_externals,
       Header = [(ContentType sample_externals, ContentTypeJSON sample_externals)],
       request.Body = sample_body\<rparr>" for found :: response
    by (simp add: sample_urls sample_register_def)
  have urls:
    "url_error sample_externals
       (GetRegistryUrl sample_externals (config sample_client) @
        ApiRegistrationByServiceIdRoute sample_externals @ serviceKey sample_client) = None"
    "url_error sample_externals
       (GetRegistryUrl sample_externals (config sample_client) @
        ApiRegisterRoute sample_externals) = None"
    by (simp_all add: sample_urls)
  note inst = Register_probe_then_put_or_post
      [where k = sample_client and X = sample_externals and jsonEncodedData = sample_body
         and probe = sample_probe,
       OF sample_client_fields(1-5) sample_Marshal_client urls probe _ req]
  have 1: "fst (Register sample_externals sample_registry sample_client []) = None \<and>
    snd (snd (Register sample_externals sample_registry sample_client [])) =
      [sample_probe, sample_register MethodPost]"
    using inst [where T = sample_registry and w = "[]", OF created(1)] created(2)
    by simp
  have 2: "fst (Register sample_externals sample_registry sample_client
                  [sample_register MethodPost]) = None \<and>
    snd (snd (Register sample_externals sample_registry sample_client
                [sample_register MethodPost])) =
      [sample_register MethodPost, sample_probe, sample_register MethodPut]"
    using inst [where T = sample_registry and w = "[sample_register MethodPost]",
               OF updated(1)] updated(2)
    by simp
  have 3: "fst (Register sample_externals busy_registry sample_client []) =
      Some ''failed to register core-data: keeper is busy'' \<and>
    snd (snd (Register sample_externals busy_registry sample_client [])) =
      [sample_probe, sample_register MethodPost]"
    using inst [where T = busy_registry and w = "[]", OF busy(1)] busy(2) envelope
    by (simp add: sample_client_fields(6))
  from created updated busy 1 2 3 show ?thesis by simp
qed

text \<open>
  C3. IsServiceAvailable answers \<open>(true, nil)\<close> exactly when the fetch returns status
  200 and the decoded record's status is \<open>up\<close> in any mix of upper and lower case. On
  200 with another status value it answers false with the not-healthy error, on 404
  false with the not-registered error, on any other status false with the message of
  the decoded envelope. The answer is true exactly when the error is nil, so true never
  comes with an error.
\<close>

theorem IsServiceAvailable_outcomes:
  assumes req: "req = \<lparr>Method = MethodGet,
                        URL = GetRegistryUrl X (config k) @ ApiRegistrationByServiceIdRoute X @ key,
                        Header = [], request.Body = []\<rparr>"
  shows
    "((fst (IsServiceAvailable X T k w key) = (True, None)) =
        (\<exists>resp bodyBytes response.
           url_error X (URL req) = None \<and> T w req = Inr resp \<and> StatusCode resp = 200 \<and>
           Body resp = Inr bodyBytes \<and>
           Unmarshal_RegistrationResponse X bodyBytes = Inr response \<and>
           Status (RegistrationResponse.Registration response) \<in> {''up'', ''Up'', ''uP'', ''UP''})) \<and>
     (\<forall>resp bodyBytes response.
        url_error X (URL req) = None \<and> T w req = Inr resp \<and> StatusCode resp = 200 \<and>
        Body resp = Inr bodyBytes \<and>
        Unmarshal_RegistrationResponse X bodyBytes = Inr response \<and>
        Status (RegistrationResponse.Registration response) \<notin> {''up'', ''Up'', ''uP'', ''UP''} \<longrightarrow>
        fst (IsServiceAvailable X T k w key) =
          (False, Some ('' '' @ key @ '' service not healthy...''))) \<and>
     (\<forall>resp bodyBytes.
        url_error X (URL req) = None \<and> T w req = Inr resp \<and> StatusCode resp = 404 \<and>
        Body resp = Inr bodyBytes \<longrightarrow>
        fst (IsServiceAvailable X T k w key) =
          (False, Some (key @ '' service is not registered. Might not have started... ''))) \<and>
     (\<forall>resp bodyBytes response.
        url_error X (URL req) = None \<and> T w req = Inr resp \<and>
        StatusCode resp \<noteq> 200 \<and> StatusCode resp \<noteq> 404 \<and>
        Body resp = Inr bodyBytes \<and> Unmarshal_BaseResponse X bodyBytes = Inr response \<longrightarrow>
        fst (IsServiceAvailable X T k w key) =
          (False, Some (''failed to check service availability: '' @ Message response))) \<and>
     fst (fst (IsServiceAvailable X T k w key)) =
       (snd (fst (IsServiceAvailable X T k w key)) = None)"
  unfolding req
  by (auto simp: IsServiceAvailable_def getRegistryByService_cases ReadAll_def EqualFold_up
           split: option.splits sum.splits)

theorem IsServiceAvailable_outcomes_witness:
  "fst (IsServiceAvailable sample_externals sample_registry sample_client
          [sample_register MethodPost] ''core-data'') = (True, None) \<and>
   fst (IsServiceAvailable sample_externals sample_registry sample_client [] ''core-command'') =
     (False, Some '' core-command service not healthy...'') \<and>
   fst (IsServiceAvailable sample_externals sample_registry sample_client [] ''core-metadata'') =
     (False, Some ''core-metadata service is not registered. Might not have started... '') \<and>
   fst (IsServiceAvailable sample_externals busy_registry sample_client [] ''core-data'') =
     (False, Some ''failed to check service availability: keeper is busy'')"
proof -
  have 1: "fst (IsServiceAvailable sample_externals sample_registry sample_client
                  [sample_register MethodPost] ''core-data'') = (True, None)"
    using IsServiceAvailable_outcomes
            [where X = sample_externals and T = sample_registry and k = sample_client
               and w = "[sample_register MethodPost]" and key = "''core-data''", OF refl]
    by (simp add: sample_routes sample_url_error sample_decoders sample_registry_def
                  sample_register_def sample_Unmarshal_RegistrationResponse_def
                  sample_data_record_def)
  have 2: "fst (IsServiceAvailable sample_externals sample_registry sample_client []
                  ''core-command'') = (False, Some '' core-command service not healthy...'')"
    using IsServiceAvailable_outcomes
            [where X = sample_externals and T = sample_registry and k = sample_client
               and w = "[]" and key = "''core-command''", OF refl]
    by (simp add: sample_routes sample_url_error sample_decoders sample_registry_def
                  sample_Unmarshal_RegistrationResponse_def sample_command_record_def)
  have 3: "fst (IsServiceAvailable sample_externals sample_registry sample_client []
                  ''core-metadata'') =
             (False, Some ''core-metadata service is not registered. Might not have started... '')"
    using IsServiceAvailable_outcomes
            [where X = sample_externals and T = sample_registry and k = sample_client
               and w = "[]" and key = "''core-metadata''", OF refl]
    by (simp add: sample_routes sample_url_error sample_registry_def)
  have 4: "fst (IsServiceAvailable sample_externals busy_registry sample_client []
                  ''core-data'') =
             (False, Some ''failed to check service availability: keeper is busy'')"
    using IsServiceAvailable_outcomes
            [where X = sample_externals and T = busy_registry and k = sample_client
               and w = "[]" and key = "''core-data''", OF refl]
    by (simp add: sample_routes sample_url_error sample_decoders busy_registry_def
                  sample_Unmarshal_BaseResponse_def)
  from 1 2 3 4 show ?thesis by simp
qed

text \<open>
  C4. On a 200 response that decodes, GetServiceEndpoint returns the endpoint whose
  identifier is the requested key (the decoded record's own identifier is not used) and
  whose host and port are the record's, with a nil error. The error is nil in that case
  only: on a non-200 status, a transport failure, an unreadable body or a decode failure
  it is non-nil, and with a non-nil error the endpoint is the zero value.
\<close>

theorem GetServiceEndpoint_outcomes:
  assumes req: "req = \<lparr>Method = MethodGet,
                        URL = GetRegistryUrl X (config k) @ ApiRegistrationByServiceIdRoute X @ key,
                        Header = [], request.Body = []\<rparr>"
  shows
    "(\<forall>resp bodyBytes r.
        url_error X (URL req) = None \<and> T w req = Inr resp \<and> StatusCode resp = 200 \<and>
        Body resp = Inr bodyBytes \<and> Unmarshal_RegistrationResponse X bodyBytes = Inr r \<longrightarrow>
        fst (GetServiceEndpoint X T k w key) =
          (\<lparr>ServiceEndpoint.ServiceId = key,
            Host = RegistrationDTO.Host (RegistrationResponse.Registration r),
            Port = RegistrationDTO.Port (RegistrationResponse.Registration r)\<rparr>, None)) \<and>
     ((snd (fst (GetServiceEndpoint X T k w key)) = None) =
        (\<exists>resp bodyBytes r.
           url_error X (URL req) = None \<and> T w req = Inr resp \<and> StatusCode resp = 200 \<and>
           Body resp = Inr bodyBytes \<and> Unmarshal_RegistrationResponse X bodyBytes = Inr r)) \<and>
     (snd (fst (GetServiceEndpoint X T k w key)) \<noteq> None \<longrightarrow>
        fst (fst (GetServiceEndpoint X T k w key)) = ServiceEndpoint_zero)"
  unfolding req
  by (auto simp: GetServiceEndpoint_def NewRequest_def NoBody_def Do_def ReadAll_def
           split: option.splits sum.splits)

theorem GetServiceEndpoint_outcomes_witness:
  "fst (GetServiceEndpoint sample_externals sample_registry sample_client [] ''CORE-COMMAND'') =
     (\<lparr>ServiceEndpoint.ServiceId = ''CORE-COMMAND'', Host = ''10.0.0.9'', Port = 59882\<rparr>, None) \<and>
   RegistrationDTO.ServiceId sample_command_record = ''core-command'' \<and>
   fst (fst (GetServiceEndpoint sample_externals sample_registry sample_client []
               ''core-metadata'')) = ServiceEndpoint_zero \<and>
   snd (fst (GetServiceEndpoint sample_externals sample_registry sample_client []
               ''core-metadata'')) \<noteq> None \<and>
   fst (fst (GetServiceEndpoint sample_externals down_registry sample_client []
               ''core-data'')) = ServiceEndpoint_zero \<and>
   snd (fst (GetServiceEndpoint sample_externals down_registry sample_client []
               ''core-data'')) \<noteq> None"
proof -
  have 1: "fst (GetServiceEndpoint sample_externals sample_registry sample_client []
                  ''CORE-COMMAND'') =
     (\<lparr>ServiceEndpoint.ServiceId = ''CORE-COMMAND'', Host = ''10.0.0.9'', Port = 59882\<rparr>, None)"
    using GetServiceEndpoint_outcomes
            [where X = sample_externals and T = sample_registry and k = sample_client
               and w = "[]" and key = "''CORE-COMMAND''", OF refl]
    by (simp add: sample_routes sample_url_error sample_decoders sample_registry_def
                  sample_Unmarshal_RegistrationResponse_def sample_command_record_def)
  have 2: "fst (fst (GetServiceEndpoint sample_externals sample_registry sample_client []
               ''core-metadata'')) = ServiceEndpoint_zero \<and>
   snd (fst (GetServiceEndpoint sample_externals sample_registry sample_client []
               ''core-metadata'')) \<noteq> None"
    using GetServiceEndpoint_outcomes
            [where X = sample_externals and T = sample_registry and k = sample_client
               and w = "[]" and key = "''core-metadata''", OF refl]
    by (simp add: sample_routes sample_url_error sample_registry_def)
  have 3: "fst (fst (GetServiceEndpoint sample_externals down_registry sample_client []
               ''core-data'')) = ServiceEndpoint_zero \<and>
   snd (fst (GetServiceEndpoint sample_externals down_registry sample_client []
               ''core-data'')) \<noteq> None"
    using GetServiceEndpoint_outcomes
            [where X = sample_externals and T = down_registry and k = sample_client
               and w = "[]" and key = "''core-data''", OF refl]
    by (simp add: sample_routes sample_url_error down_registry_def)
  from 1 2 3 show ?thesis by (simp add: sample_command_record_def)
qed

text \<open>
  C5. IsAlive is true exactly when the ping is answered with a status in the half-open
  range from 200 to 300; for every other status and for every transport error it is
  false. Its Go result is the boolean alone, so there is no error value to return.
\<close>

theorem IsAlive_status_range:
  assumes req: "req = \<lparr>Method = MethodGet, URL = keeperUrl k @ ApiPingRoute X,
                        Header = [], request.Body = []\<rparr>"
  shows "fst (IsAlive X T k w) =
           (\<exists>resp. url_error X (URL req) = None \<and> T w req = Inr resp \<and>
                   200 \<le> StatusCode resp \<and> StatusCode resp < 300)"
  unfolding req
  by (auto simp: IsAlive_def http_Get_def NewRequest_def NoBody_def Do_def
           split: option.splits sum.splits)

theorem IsAlive_status_range_witness:
  "fst (IsAlive sample_externals sample_registry sample_client []) = True \<and>
   fst (IsAlive sample_externals busy_registry sample_client []) = False \<and>
   fst (IsAlive sample_externals down_registry sample_client []) = False"
proof -
  have 1: "fst (IsAlive sample_externals sample_registry sample_client [])"
    using IsAlive_status_range
            [where X = sample_externals and T = sample_registry and k = sample_client
               and w = "[]", OF refl]
    by (simp add: sample_routes sample_url_error sample_registry_def)
  have 2: "\<not> fst (IsAlive sample_externals busy_registry sample_client [])"
    using IsAlive_status_range
            [where X = sample_externals and T = busy_registry and k = sample_client
               and w = "[]", OF refl]
    by (simp add: sample_routes sample_url_error busy_registry_def)
  have 3: "\<not> fst (IsAlive sample_externals down_registry sample_client [])"
    using IsAlive_status_range
            [where X = sample_externals and T = down_registry and k = sample_client
               and w = "[]", OF refl]
    by (simp add: sample_routes sample_url_error down_registry_def)
  from 1 2 3 show ?thesis by simp
qed

text \<open>
  C6. On a 200 response that decodes, GetAllServiceEndpoints returns one endpoint per
  registration record of the decoded list, in the order of the list, each with the
  identifier, host and port of its record, and a nil error; for an empty list it
  returns the empty sequence and a nil error.
\<close>

theorem GetAllServiceEndpoints_in_registry_order:
  assumes req: "req = \<lparr>Method = MethodGet,
                        URL = GetRegistryUrl X (config k) @ ApiAllRegistrationRoute X,
                        Header = [], request.Body = []\<rparr>"
    and url_ok: "url_error X (URL req) = None"
    and resp: "T w req = Inr resp" "StatusCode resp = 200" "Body resp = Inr bodyBytes"
    and dec: "Unmarshal_MultiRegistrationsResponse X bodyBytes = Inr responseDTO"
  shows
    "fst (GetAllServiceEndpoints X T k w) =
       (Some (map (\<lambda>r. \<lparr>ServiceEndpoint.ServiceId = RegistrationDTO.ServiceId r,
                         Host = RegistrationDTO.Host r, Port = RegistrationDTO.Port r\<rparr>)
                  (Registrations responseDTO)), None) \<and>
     (Registrations responseDTO = [] \<longrightarrow> fst (GetAllServiceEndpoints X T k w) = (Some [], None))"
  using url_ok resp dec unfolding req
  by (simp add: GetAllServiceEndpoints_def NewRequest_def NoBody_def Do_def ReadAll_def
                range_Registrations_map Let_def)

theorem GetAllServiceEndpoints_in_registry_order_witness:
  \<open>Registrations \<lparr>Registrations = [sample_data_record, sample_command_record]\<rparr> =
      [sample_data_record, sample_command_record] \<and>
   fst (GetAllServiceEndpoints sample_externals sample_registry sample_client []) =
     (Some [\<lparr>ServiceEndpoint.ServiceId = ''core-data'', Host = ''10.0.0.7'', Port = 59880\<rparr>,
            \<lparr>ServiceEndpoint.ServiceId = ''core-command'', Host = ''10.0.0.9'', Port = 59882\<rparr>],
      None) \<and>
   fst (GetAllServiceEndpoints sample_externals empty_registry sample_client []) =
     (Some [], None)\<close>
proof -
  have 1: \<open>fst (GetAllServiceEndpoints sample_externals sample_registry sample_client []) =
     (Some [\<lparr>ServiceEndpoint.ServiceId = ''core-data'', Host = ''10.0.0.7'', Port = 59880\<rparr>,
            \<lparr>ServiceEndpoint.ServiceId = ''core-command'', Host = ''10.0.0.9'', Port = 59882\<rparr>],
      None)\<close>
    using GetAllServiceEndpoints_in_registry_order
            [where X = sample_externals and T = sample_registry and k = sample_client
               and w = "[]"
               and resp = \<open>\<lparr>StatusCode = 200,
                             Body = Inr ''{"registrations":[core-data,core-command]}''\<rparr>\<close>
               and bodyBytes = \<open>''{"registrations":[core-data,core-command]}''\<close>
               and responseDTO = "\<lparr>Registrations = [sample_data_record, sample_command_record]\<rparr>",
             OF refl]
    by (simp add: sample_routes sample_url_error sample_decoders sample_registry_def
                  sample_Unmarshal_MultiRegistrationsResponse_def sample_command_record_def
                  sample_data_record_def)
  have 2: "fst (GetAllServiceEndpoints sample_externals empty_registry sample_client []) =
     (Some [], None)"
    using GetAllServiceEndpoints_in_registry_order
            [where X = sample_externals and T = empty_registry and k = sample_client
               and w = "[]"
               and resp = \<open>\<lparr>StatusCode = 200, Body = Inr ''{"registrations":[]}''\<rparr>\<close>
               and bodyBytes = \<open>''{"registrations":[]}''\<close>
               and responseDTO = "\<lparr>Registrations = []\<rparr>",
             OF refl]
    by (simp add: sample_routes sample_url_error sample_decoders empty_registry_def
                  sample_Unmarshal_MultiRegistrationsResponse_def)
  from 1 2 show ?thesis by simp
qed

text \<open>
  C7. Unregister succeeds exactly when the delete call is answered with status 204; for
  any other status whose body decodes as an error envelope it fails with an error that
  contains the envelope's message.
\<close>

theorem Unregister_outcomes:
  assumes req: "req = \<lparr>Method = MethodDelete,
                        URL = GetRegistryUrl X (config k) @ ApiRegistrationByServiceIdRoute X @
                              serviceKey k,
                        Header = [], request.Body = []\<rparr>"
  shows
    "((fst (Unregister X T k w) = None) =
        (\<exists>resp. url_error X (URL req) = None \<and> T w req = Inr resp \<and> StatusCode resp = 204)) \<and>
     (\<forall>resp bodyBytes response.
        url_error X (URL req) = None \<and> T w req = Inr resp \<and> StatusCode resp \<noteq> 204 \<and>
        Body resp = Inr bodyBytes \<and> Unmarshal_BaseResponse X bodyBytes = Inr response \<longrightarrow>
        fst (Unregister X T k w) =
          Some (''failed to unregister '' @ serviceKey k @ '': '' @ Message response))"
  unfolding req
  by (auto simp: Unregister_def NewRequest_def NoBody_def Do_def ReadAll_def
           split: option.splits sum.splits)

theorem Unregister_outcomes_witness:
  "fst (Unregister sample_externals sample_registry sample_client []) = None \<and>
   fst (Unregister sample_externals busy_registry sample_client []) =
     Some ''failed to unregister core-data: keeper is busy''"
proof -
  have 1: "fst (Unregister sample_externals sample_registry sample_client []) = None"
    using Unregister_outcomes
            [where X = sample_externals and T = sample_registry and k = sample_client
               and w = "[]", OF refl]
    by (simp add: sample_routes sample_url_error sample_registry_def sample_client_fields(6))
  have 2: "fst (Unregister sample_externals busy_registry sample_client []) =
     Some ''failed to unregister core-data: keeper is busy''"
    using Unregister_outcomes
            [where X = sample_externals and T = busy_registry and k = sample_client
               and w = "[]", OF refl]
    by (simp add: sample_routes sample_url_error sample_decoders busy_registry_def
                  sample_Unmarshal_BaseResponse_def sample_client_fields(6))
  from 1 2 show ?thesis by simp
qed

text \<open>
  C8 (as the code has it). NewKeeperClient returns a client and a nil error for every
  configuration; the client always holds the configuration, the derived registry URL and
  the service key. It holds the configuration's service host, service port, health-check
  route and health-check interval exactly when the configured service host is not empty,
  whatever the port, route and interval are, and their zero values otherwise.
\<close>

theorem NewKeeperClient_stores_on_service_host:
  "NewKeeperClient X registryConfig =
     (\<lparr>config = registryConfig,
       keeperUrl = GetRegistryUrl X registryConfig,
       serviceKey = ServiceKey registryConfig,
       serviceHost = (if ServiceHost registryConfig = [] then []
                      else ServiceHost registryConfig),
       servicePort = (if ServiceHost registryConfig = [] then 0
                      else ServicePort registryConfig),
       healthCheckRoute = (if ServiceHost registryConfig = [] then []
                           else CheckRoute registryConfig),
       healthCheckInterval = (if ServiceHost registryConfig = [] then []
                              else CheckInterval registryConfig)\<rparr>, None)"
  by (simp add: NewKeeperClient_def)

theorem NewKeeperClient_stores_on_service_host_witness:
  "NewKeeperClient sample_externals sample_config = (sample_client, None) \<and>
   NewKeeperClient sample_externals (sample_config\<lparr>ServiceHost := []\<rparr>) = (lookup_client, None)"
  using NewKeeperClient_stores_on_service_host [of sample_externals sample_config]
        NewKeeperClient_stores_on_service_host
          [of sample_externals "sample_config\<lparr>ServiceHost := []\<rparr>"]
  by (simp add: sample_externals_def sample_config_def sample_client_def lookup_client_def
                decimal.simps)

text \<open>
  C8 as stated fails: a configuration with a service host but no port, route or interval
  does not carry the full self-registration data, yet the client built from it stores the
  host instead of leaving it at its zero value.
\<close>

theorem NewKeeperClient_host_only_counterexample:
  "\<not> (ServiceHost host_only_config \<noteq> [] \<and> ServicePort host_only_config \<noteq> 0 \<and>
      CheckRoute host_only_config \<noteq> [] \<and> CheckInterval host_only_config \<noteq> []) \<and>
   serviceHost (fst (NewKeeperClient sample_externals host_only_config)) = ''10.0.0.7''"
  by (simp add: NewKeeperClient_def host_only_config_def)

text \<open>
  C9. Each of Register, Unregister, RegisterCheck, IsAlive, GetServiceEndpoint,
  GetAllServiceEndpoints and IsServiceAvailable hands the client back with every field
  as it was, on every path.
\<close>

theorem operations_leave_client_unchanged:
  "fst (snd (Register X T k w)) = k \<and>
   fst (snd (Unregister X T k w)) = k \<and>
   fst (snd (RegisterCheck k w ident name notes url interval)) = k \<and>
   fst (snd (IsAlive X T k w)) = k \<and>
   fst (snd (GetServiceEndpoint X T k w key)) = k \<and>
   fst (snd (GetAllServiceEndpoints X T k w)) = k \<and>
   fst (snd (IsServiceAvailable X T k w key)) = k"
proof -
  have "fst (snd (Register X T k w)) = k"
    by (simp add: Register_def getRegistryByService_cases NewRequest_def Do_def Let_def
             split: option.split sum.split)
  moreover have "fst (snd (Unregister X T k w)) = k"
    by (simp add: Unregister_def NewRequest_def Do_def split: option.split sum.split)
  moreover have "fst (snd (RegisterCheck k w ident name notes url interval)) = k"
    by (simp add: RegisterCheck_def)
  moreover have "fst (snd (IsAlive X T k w)) = k"
    by (simp add: IsAlive_def http_Get_def NewRequest_def Do_def split: option.split sum.split)
  moreover have "fst (snd (GetServiceEndpoint X T k w key)) = k"
    by (simp add: GetServiceEndpoint_def NewRequest_def Do_def split: option.split sum.split)
  moreover have "fst (snd (GetAllServiceEndpoints X T k w)) = k"
    by (simp add: GetAllServiceEndpoints_def NewRequest_def Do_def Let_def
             split: option.split sum.split)
  moreover have "fst (snd (IsServiceAvailable X T k w key)) = k"
    by (simp add: IsServiceAvailable_def getRegistryByService_cases
             split: option.split sum.split)
  ultimately show ?thesis by simp
qed

theorem operations_leave_client_unchanged_witness:
  "fst (snd (Register sample_externals sample_registry sample_client [])) = sample_client \<and>
   fst (snd (Unregister sample_externals busy_registry sample_client [])) = sample_client \<and>
   fst (snd (IsServiceAvailable sample_externals down_registry lookup_client []
               ''core-data'')) = lookup_client"
  using operations_leave_client_unchanged
          [where X = sample_externals and T = sample_registry and k = sample_client and w = "[]"]
        operations_leave_client_unchanged
          [where X = sample_externals and T = busy_registry and k = sample_client and w = "[]"]
        operations_leave_client_unchanged
          [where X = sample_externals and T = down_registry and k = lookup_client and w = "[]"
             and key = "''core-data''"]
  by simp

text \<open>
  C10. Register serializes the registration request once, before the probe (when the
  encoder fails nothing is sent, see \<open>Register_encode_failure_sends_nothing\<close>), so for a
  client that satisfies the preconditions the body sent on the update path (PUT, probe
  status 200) and the body sent on the create path (POST, any other probe status) are
  the same bytes: the serialization of the record made of the client's key, host, port,
  route and interval, the probe type \<open>http\<close> and the API version.
\<close>

theorem Register_body_same_on_create_and_update:
  assumes pre: "serviceKey k \<noteq> []" "serviceHost k \<noteq> []" "servicePort k \<noteq> 0"
               "healthCheckRoute k \<noteq> []" "healthCheckInterval k \<noteq> []"
    and enc: "json_Marshal X (registrationReq X k) = Inr jsonEncodedData"
    and probe_url: "url_error X (GetRegistryUrl X (config k) @
                      ApiRegistrationByServiceIdRoute X @ serviceKey k) = None"
    and reg_url: "url_error X (GetRegistryUrl X (config k) @ ApiRegisterRoute X) = None"
    and probe_req: "probe = \<lparr>Method = MethodGet,
                      URL = GetRegistryUrl X (config k) @ ApiRegistrationByServiceIdRoute X @
                            serviceKey k,
                      Header = [], request.Body = []\<rparr>"
    and update: "T w probe = Inr found" "StatusCode found = 200"
    and create: "T' w' probe = Inr missing" "StatusCode missing \<noteq> 200"
  shows
    "snd (snd (Register X T k w)) =
       w @ [probe, \<lparr>Method = MethodPut, URL = GetRegistryUrl X (config k) @ ApiRegisterRoute X,
                    Header = [(ContentType X, ContentTypeJSON X)],
                    request.Body = jsonEncodedData\<rparr>] \<and>
     snd (snd (Register X T' k w')) =
       w' @ [probe, \<lparr>Method = MethodPost, URL = GetRegistryUrl X (config k) @ ApiRegisterRoute X,
                     Header = [(ContentType X, ContentTypeJSON X)],
                     request.Body = jsonEncodedData\<rparr>] \<and>
     request.Body (last (snd (snd (Register X T k w)))) = jsonEncodedData \<and>
     request.Body (last (snd (snd (Register X T' k w')))) = jsonEncodedData \<and>
     registrationReq X k =
       \<lparr>BaseRequest = \<lparr>Versionable = \<lparr>Versionable.ApiVersion = externals.ApiVersion X\<rparr>\<rparr>,
        AddRegistrationRequest.Registration =
          \<lparr>RegistrationDTO.ServiceId = serviceKey k, Status = [],
           RegistrationDTO.Host = serviceHost k, RegistrationDTO.Port = servicePort k,
           HealthCheck = \<lparr>Interval = healthCheckInterval k, Path = healthCheckRoute k,
                          Type = ''http''\<rparr>\<rparr>\<rparr>"
proof -
  have put: "snd (snd (Register X T k w)) =
       w @ [probe, \<lparr>Method = MethodPut, URL = GetRegistryUrl X (config k) @ ApiRegisterRoute X,
                    Header = [(ContentType X, ContentTypeJSON X)],
                    request.Body = jsonEncodedData\<rparr>]"
    using Register_configured [where k = k and X = X and T = T and w = w and found = found
                                 and jsonEncodedData = jsonEncodedData]
          pre enc probe_url reg_url update
    unfolding probe_req by (simp add: Let_def)
  have post: "snd (snd (Register X T' k w')) =
       w' @ [probe, \<lparr>Method = MethodPost, URL = GetRegistryUrl X (config k) @ ApiRegisterRoute X,
                     Header = [(ContentType X, ContentTypeJSON X)],
                     request.Body = jsonEncodedData\<rparr>]"
    using Register_configured [where k = k and X = X and T = T' and w = w' and found = missing
                                 and jsonEncodedData = jsonEncodedData]
          pre enc probe_url reg_url create
    unfolding probe_req by (simp add: Let_def)
  show ?thesis
    unfolding put post by (simp add: registrationReq_def)
qed

theorem Register_body_same_on_create_and_update_witness:
  "snd (snd (Register sample_externals sample_registry sample_client
               [sample_register MethodPost])) =
     [sample_register MethodPost, sample_probe, sample_register MethodPut] \<and>
   snd (snd (Register sample_externals sample_registry sample_client [])) =
     [sample_probe, sample_register MethodPost] \<and>
   request.Body (sample_register MethodPut) = request.Body (sample_register MethodPost)"
proof -
  have probe: "sample_probe =
      \<lparr>Method = MethodGet,
       URL = GetRegistryUrl sample_externals (config sample_client) @
             ApiRegistrationByServiceIdRoute sample_externals @ serviceKey sample_client,
       Header = [], request.Body = []\<rparr>"
    by (simp add: sample_urls sample_probe_def)
  have urls:
    "url_error sample_externals
       (GetRegistryUrl sample_externals (config sample_client) @
        ApiRegistrationByServiceIdRoute sample_externals @ serviceKey sample_client) = None"
    "url_error sample_externals
       (GetRegistryUrl sample_externals (config sample_client) @
        ApiRegisterRoute sample_externals) = None"
    by (simp_all add: sample_urls)
  have update:
    \<open>sample_registry [sample_register MethodPost] sample_probe =
       Inr \<lparr>StatusCode = 200, Body = Inr ''{"registration":core-data}''\<rparr>\<close>
    \<open>StatusCode \<lparr>StatusCode = 200, Body = Inr ''{"registration":core-data}''\<rparr> = 200\<close>
    by (simp_all add: sample_registry_def sample_probe_def sample_register_def)
  have create:
    \<open>sample_registry [] sample_probe =
       Inr \<lparr>StatusCode = 404, Body = Inr ''{"message":"no registration for this service"}''\<rparr>\<close>
    \<open>StatusCode \<lparr>StatusCode = 404,
                  Body = Inr ''{"message":"no registration for this service"}''\<rparr> \<noteq> 200\<close>
    by (simp_all add: sample_registry_def sample_probe_def)
  show ?thesis
    using Register_body_same_on_create_and_update
            [where k = sample_client and X = sample_externals and jsonEncodedData = sample_body
               and probe = sample_probe and T = sample_registry
               and w = "[sample_register MethodPost]" and T' = sample_registry and w' = "[]",
             OF sample_client_fields(1-5) sample_Marshal_client urls probe update create]
    by (simp add: sample_urls sample_register_def)
qed

end
